theory Spec2Isabelle
  imports Main "HOL-Library.Multiset"
begin

section \<open>JavaScript values as the chart sees them\<close>

text \<open>
  The base mixin stores arbitrary JavaScript values as filters and only ever observes them
  through a handful of language operations: the relational operators, strict equality, the
  tests against \<^verbatim>\<open>null\<close> and \<^verbatim>\<open>undefined\<close>, the lookup of an \<^verbatim>\<open>isFiltered\<close> property and the
  \<^verbatim>\<open>instanceof Array\<close> shape test of the bulk path. The type of values \<open>'v\<close> is therefore left
  open and the language operations are collected in a record; every function of the model
  takes that record as its first argument. A concrete runtime over numbers and plain filter
  objects is given further down.
\<close>

record 'v js_runtime =
  lt_op :: "'v \<Rightarrow> 'v \<Rightarrow> bool option"
    \<comment> \<open>the abstract relational comparison \<open>a < b\<close>: true, false, or undefined (\<open>None\<close>)\<close>
  strict_eq :: "'v \<Rightarrow> 'v \<Rightarrow> bool"
    \<comment> \<open>\<open>a === b\<close>, as used by \<open>Array.prototype.indexOf\<close>\<close>
  null_v :: 'v
  undefined_v :: 'v
  isFiltered_of :: "'v \<Rightarrow> ('v \<Rightarrow> bool) option"
    \<comment> \<open>the value's \<open>isFiltered\<close> method when the property is truthy\<close>
  array_of_arrays :: "'v \<Rightarrow> 'v list option"
    \<comment> \<open>the elements of \<open>_[0]\<close> when \<open>_ instanceof Array && _[0] instanceof Array\<close>\<close>

text \<open>\<open>a <= b\<close> evaluates \<open>b < a\<close> and \<open>a >= b\<close> evaluates \<open>a < b\<close>; either is true exactly when
  that comparison is defined and false.\<close>

definition js_le :: "'v js_runtime \<Rightarrow> 'v \<Rightarrow> 'v \<Rightarrow> bool" where
  "js_le js a b = (lt_op js b a = Some False)"

definition js_ge :: "'v js_runtime \<Rightarrow> 'v \<Rightarrow> 'v \<Rightarrow> bool" where
  "js_ge js a b = (lt_op js a b = Some False)"

section \<open>The dataset dimension and the filter handler\<close>

text \<open>A crossfilter dimension, as far as the chart drives it: whether the object has a
  \<open>filter\<close> method at all, and the predicate currently applied to it.\<close>

record 'v dimension =
  has_filter_method :: bool
  applied :: "('v \<Rightarrow> bool) option"

definition dimension_filter_null :: "'v dimension \<Rightarrow> 'v dimension" where
  "dimension_filter_null dim = dim\<lparr>applied := None\<rparr>"

definition dimension_filterFunction :: "('v \<Rightarrow> bool) \<Rightarrow> 'v dimension \<Rightarrow> 'v dimension" where
  "dimension_filterFunction p dim = dim\<lparr>applied := Some p\<rparr>"

type_synonym 'v filter_handler = "'v dimension \<Rightarrow> 'v list \<Rightarrow> 'v dimension \<times> 'v list option"

text \<open>\<open>filter.isFiltered && filter.isFiltered(d)\<close>.\<close>

definition isFiltered_accepts :: "'v js_runtime \<Rightarrow> 'v \<Rightarrow> 'v \<Rightarrow> bool" where
  "isFiltered_accepts js f d = (case isFiltered_of js f of Some p \<Rightarrow> p d | None \<Rightarrow> False)"

text \<open>The loop inside the predicate that the default handler installs.\<close>

fun filterFunction_body :: "'v js_runtime \<Rightarrow> 'v list \<Rightarrow> 'v \<Rightarrow> bool" where
  "filterFunction_body js [] d = False"
| "filterFunction_body js (f # fs) d =
     (if isFiltered_accepts js f d then True
      else if js_le js f d \<and> js_ge js f d then True
      else filterFunction_body js fs d)"

definition default_filterHandler :: "'v js_runtime \<Rightarrow> 'v filter_handler" where
  "default_filterHandler js dim fs =
     (let dim1 = dimension_filter_null dim;
          dim2 = (if length fs = 0 then dimension_filter_null dim1
                  else dimension_filterFunction (filterFunction_body js fs) dim1)
      in (dim2, Some fs))"

section \<open>The base mixin\<close>

text \<open>Listener dispatches and calls into the drawing collaborator are recorded, in order, in
  the chart's \<open>effects\<close>; work put off to the end of a transition goes to \<open>scheduled\<close>.\<close>

datatype 'v effect =
    PreRender | PostRender | PreRedraw | PostRedraw | Filtered 'v | Zoomed
  | DoRender | DoRedraw | LegendRender | Renderlet nat
  | TurnOnControls | TurnOffControls

datatype anchor = NoAnchor | Selector string | Element string | OtherAnchor

datatype root = RootUndefined | RootNull | RootSelection

record ('v, 'r, 't) base_chart =
  chartID :: nat
  dimension :: "'v dimension option"
  group :: "'r list option"
  groupName :: "string option"
  anchor :: anchor
  root :: root
  svg :: bool
  keyAccessor :: "'r \<Rightarrow> nat \<Rightarrow> 'v"
  valueAccessor :: "'r \<Rightarrow> nat \<Rightarrow> int"
  titleFn :: 't
  renderTitle :: bool
  transitionDuration :: int
  renderlets :: nat
  mandatoryAttributes :: "string list option"
  otherMembers :: "string \<Rightarrow> bool option"
  legend :: bool
  filters :: "'v list"
  filterHandler :: "'v filter_handler"
  effects :: "'v effect list"
  scheduled :: "'v effect list"

subsection \<open>Filters\<close>

definition invokeFilteredListener ::
  "'v js_runtime \<Rightarrow> 'v \<Rightarrow> ('v, 'r, 't, 'z) base_chart_scheme \<Rightarrow> ('v, 'r, 't, 'z) base_chart_scheme" where
  "invokeFilteredListener js f c =
     (if f \<noteq> undefined_v js then c\<lparr>effects := effects c @ [Filtered f]\<rparr> else c)"

text \<open>\<open>hasFilter\<close> with no argument (\<open>None\<close>) and with one.\<close>

definition hasFilter :: "'v js_runtime \<Rightarrow> ('v, 'r, 't, 'z) base_chart_scheme \<Rightarrow> 'v option \<Rightarrow> bool" where
  "hasFilter js c arg =
     (case arg of
        None \<Rightarrow> length (filters c) > 0
      | Some v \<Rightarrow> list_ex (\<lambda>f. js_le js v f \<and> js_ge js v f) (filters c))"

definition applyFilters ::
  "('v, 'r, 't, 'z) base_chart_scheme \<Rightarrow> ('v, 'r, 't, 'z) base_chart_scheme" where
  "applyFilters c =
     (case dimension c of
        None \<Rightarrow> c
      | Some dim \<Rightarrow>
          if has_filter_method dim then
            (case filterHandler c dim (filters c) of
               (dim', fs) \<Rightarrow>
                 c\<lparr>dimension := Some dim',
                   filters := (case fs of Some fs' \<Rightarrow> fs' | None \<Rightarrow> filters c)\<rparr>)
          else c)"

text \<open>The loop of \<open>removeFilter\<close>: splice out the first stored filter that compares equal
  from both sides, then stop.\<close>

fun splice_first_match :: "'v js_runtime \<Rightarrow> 'v \<Rightarrow> 'v list \<Rightarrow> 'v list" where
  "splice_first_match js v [] = []"
| "splice_first_match js v (f # fs) =
     (if js_le js f v \<and> js_ge js f v then fs else f # splice_first_match js v fs)"

definition removeFilter ::
  "'v js_runtime \<Rightarrow> 'v \<Rightarrow> ('v, 'r, 't, 'z) base_chart_scheme \<Rightarrow> ('v, 'r, 't, 'z) base_chart_scheme" where
  "removeFilter js v c =
     invokeFilteredListener js v
       (applyFilters (c\<lparr>filters := splice_first_match js v (filters c)\<rparr>))"

definition addFilter ::
  "'v js_runtime \<Rightarrow> 'v \<Rightarrow> ('v, 'r, 't, 'z) base_chart_scheme \<Rightarrow> ('v, 'r, 't, 'z) base_chart_scheme" where
  "addFilter js v c =
     invokeFilteredListener js v (applyFilters (c\<lparr>filters := filters c @ [v]\<rparr>))"

definition resetFilters ::
  "'v js_runtime \<Rightarrow> ('v, 'r, 't, 'z) base_chart_scheme \<Rightarrow> ('v, 'r, 't, 'z) base_chart_scheme" where
  "resetFilters js c =
     invokeFilteredListener js (null_v js) (applyFilters (c\<lparr>filters := []\<rparr>))"

text \<open>\<open>indexOf\<close> answers \<open>-1\<close> (\<open>None\<close>) when nothing is strictly equal, and \<open>splice(-1, 1)\<close>
  then removes the last element.\<close>

fun indexOf :: "'v js_runtime \<Rightarrow> 'v list \<Rightarrow> 'v \<Rightarrow> nat option" where
  "indexOf js [] d = None"
| "indexOf js (f # fs) d =
     (if strict_eq js f d then Some 0 else map_option Suc (indexOf js fs d))"

definition splice_one :: "nat option \<Rightarrow> 'v list \<Rightarrow> 'v list" where
  "splice_one i fs =
     (case i of
        None \<Rightarrow> butlast fs
      | Some k \<Rightarrow> take k fs @ drop (Suc k) fs)"

text \<open>The \<open>forEach\<close> of the bulk path, over the inner array.\<close>

fun bulk_toggle ::
  "'v js_runtime \<Rightarrow> 'v list \<Rightarrow> ('v, 'r, 't, 'z) base_chart_scheme \<Rightarrow> ('v, 'r, 't, 'z) base_chart_scheme" where
  "bulk_toggle js [] c = c"
| "bulk_toggle js (d # ds) c =
     bulk_toggle js ds
       (if hasFilter js c (Some d)
        then c\<lparr>filters := splice_one (indexOf js (filters c) d) (filters c)\<rparr>
        else c\<lparr>filters := filters c @ [d]\<rparr>)"

text \<open>The controls are elements under the root; without a root there is nothing to switch.\<close>

definition turnOnControls ::
  "('v, 'r, 't, 'z) base_chart_scheme \<Rightarrow> ('v, 'r, 't, 'z) base_chart_scheme" where
  "turnOnControls c =
     (if root c = RootSelection then c\<lparr>effects := effects c @ [TurnOnControls]\<rparr> else c)"

definition turnOffControls ::
  "('v, 'r, 't, 'z) base_chart_scheme \<Rightarrow> ('v, 'r, 't, 'z) base_chart_scheme" where
  "turnOffControls c =
     (if root c = RootSelection then c\<lparr>effects := effects c @ [TurnOffControls]\<rparr> else c)"

text \<open>\<open>filter\<close> called with one argument. (With none it is the getter \<open>filter_get\<close>.)\<close>

definition filter_chart ::
  "'v js_runtime \<Rightarrow> 'v \<Rightarrow> ('v, 'r, 't, 'z) base_chart_scheme \<Rightarrow> ('v, 'r, 't, 'z) base_chart_scheme" where
  "filter_chart js v c =
     (let c1 =
        (case (if isFiltered_of js v = None then array_of_arrays js v else None) of
           Some ds \<Rightarrow> invokeFilteredListener js v (applyFilters (bulk_toggle js ds c))
         | None \<Rightarrow>
             if v = null_v js then resetFilters js c
             else if hasFilter js c (Some v) then removeFilter js v c
             else addFilter js v c)
      in if root c1 \<noteq> RootNull \<and> hasFilter js c1 None then turnOnControls c1
         else turnOffControls c1)"

definition filter_get :: "'v js_runtime \<Rightarrow> ('v, 'r, 't, 'z) base_chart_scheme \<Rightarrow> 'v" where
  "filter_get js c = (if length (filters c) > 0 then hd (filters c) else null_v js)"


definition replaceFilter ::
  "'v js_runtime \<Rightarrow> 'v \<Rightarrow> ('v, 'r, 't, 'z) base_chart_scheme \<Rightarrow> ('v, 'r, 't, 'z) base_chart_scheme" where
  "replaceFilter js v c = filter_chart js v (c\<lparr>filters := []\<rparr>)"

definition filterHandler_set ::
  "'v filter_handler \<Rightarrow> ('v, 'r, 't, 'z) base_chart_scheme \<Rightarrow> ('v, 'r, 't, 'z) base_chart_scheme" where
  "filterHandler_set h c = c\<lparr>filterHandler := h\<rparr>"

definition dimension_set ::
  "'v dimension \<Rightarrow> ('v, 'r, 't, 'z) base_chart_scheme \<Rightarrow> ('v, 'r, 't, 'z) base_chart_scheme" where
  "dimension_set d c = c\<lparr>dimension := Some d\<rparr>"

subsection \<open>Render and redraw\<close>

datatype error = InvalidStateException string | TypeError

text \<open>\<open>'' + n\<close> for a chart id, and \<open>a.replace('#', '')\<close>, which drops the first \<open>#\<close> only.\<close>

fun string_of_nat :: "nat \<Rightarrow> string" where
  "string_of_nat n =
     (if n < 10 then [''0123456789'' ! n]
      else string_of_nat (n div 10) @ [''0123456789'' ! (n mod 10)])"











subsection \<open>Group, title and value accessor\<close>

definition group_base ::
  "'r list \<Rightarrow> string option \<Rightarrow> ('v, 'r, 't, 'z) base_chart_scheme \<Rightarrow> ('v, 'r, 't, 'z) base_chart_scheme" where
  "group_base g name c = c\<lparr>group := Some g, groupName := name\<rparr>"


definition valueAccessor_set ::
  "('r \<Rightarrow> nat \<Rightarrow> int) \<Rightarrow> ('v, 'r, 't, 'z) base_chart_scheme \<Rightarrow> ('v, 'r, 't, 'z) base_chart_scheme" where
  "valueAccessor_set f c = c\<lparr>valueAccessor := f\<rparr>"

subsection \<open>A fresh chart\<close>

text \<open>The state a chart starts in: the initial values of the mixin's variables. The group
  records are key/value pairs, read by the default accessors \<open>pluck('key')\<close> and
  \<open>pluck('value')\<close>; the default title function and the members a chart type adds are
  arguments.\<close>

definition baseMixin ::
  "'v js_runtime \<Rightarrow> nat \<Rightarrow> 't \<Rightarrow> (string \<Rightarrow> bool option) \<Rightarrow> ('v, 'v \<times> int, 't) base_chart" where
  "baseMixin js uid title0 members =
     \<lparr>chartID = uid, dimension = None, group = None, groupName = None,
      anchor = NoAnchor, root = RootUndefined, svg = False,
      keyAccessor = (\<lambda>d i. fst d), valueAccessor = (\<lambda>d i. snd d),
      titleFn = title0, renderTitle = False, transitionDuration = 750, renderlets = 0,
      mandatoryAttributes = Some [''dimension'', ''group''], otherMembers = members,
      legend = False, filters = [], filterHandler = default_filterHandler js,
      effects = [], scheduled = []\<rparr>"

subsection \<open>What the specification says of \<open>hasFilter\<close>\<close>

text \<open>Two values are symmetrically equal when each is \<open><=\<close> and \<open>>=\<close> the other.\<close>

definition symmetric_equal :: "'v js_runtime \<Rightarrow> 'v \<Rightarrow> 'v \<Rightarrow> bool" where
  "symmetric_equal js a b = (js_le js a b \<and> js_ge js a b)"

text \<open>The specification's reading of \<open>hasFilter(v)\<close>: some stored filter is symmetrically equal
  to \<open>v\<close>, or exposes \<open>isFiltered\<close> and accepts \<open>v\<close>.\<close>

definition hasFilter_spec :: "'v js_runtime \<Rightarrow> 'v list \<Rightarrow> 'v \<Rightarrow> bool" where
  "hasFilter_spec js fs v =
     list_ex (\<lambda>f. symmetric_equal js f v \<or> isFiltered_accepts js f v) fs"

section \<open>A concrete runtime: numbers and plain filter objects\<close>

text \<open>
  For evaluating the model on concrete inputs: \<open>undefined\<close>, \<open>null\<close>, the numbers that are
  integers, \<open>NaN\<close>, and \<open>JBetween lo hi\<close> for the plain object
  \<^verbatim>\<open>{isFiltered: function (d) { return lo <= d && d <= hi; }}\<close>.
  The relational operators convert a plain object to the string \<^verbatim>\<open>"[object Object]"\<close>: two such
  objects compare as equal strings, and against anything else the string converts to \<open>NaN\<close>.
  \<open>null\<close> converts to \<open>0\<close> and \<open>undefined\<close> to \<open>NaN\<close>; a comparison with \<open>NaN\<close> is undefined.
\<close>

datatype jsval = JUndefined | JNull | JNaN | JNum int | JBetween int int

fun is_object :: "jsval \<Rightarrow> bool" where
  "is_object (JBetween lo hi) = True"
| "is_object v = False"

fun to_number :: "jsval \<Rightarrow> int option" where
  "to_number JUndefined = None"
| "to_number JNull = Some 0"
| "to_number JNaN = None"
| "to_number (JNum n) = Some n"
| "to_number (JBetween lo hi) = None"

definition less_than :: "jsval \<Rightarrow> jsval \<Rightarrow> bool option" where
  "less_than a b =
     (if is_object a \<and> is_object b then Some False
      else (case (to_number a, to_number b) of
              (Some m, Some n) \<Rightarrow> Some (m < n)
            | _ \<Rightarrow> None))"

definition strictly_equal :: "jsval \<Rightarrow> jsval \<Rightarrow> bool" where
  "strictly_equal a b = (a = b \<and> a \<noteq> JNaN)"

definition between :: "int \<Rightarrow> int \<Rightarrow> jsval \<Rightarrow> bool" where
  "between lo hi d = (less_than d (JNum lo) = Some False \<and> less_than (JNum hi) d = Some False)"

fun isFiltered_property :: "jsval \<Rightarrow> (jsval \<Rightarrow> bool) option" where
  "isFiltered_property (JBetween lo hi) = Some (between lo hi)"
| "isFiltered_property v = None"

definition js0 :: "jsval js_runtime" where
  "js0 = \<lparr>lt_op = less_than, strict_eq = strictly_equal, null_v = JNull,
          undefined_v = JUndefined, isFiltered_of = isFiltered_property,
          array_of_arrays = (\<lambda>v. None)\<rparr>"

text \<open>A fresh chart over that runtime, and one bound to a dimension.\<close>

definition chart0 :: "(jsval, jsval \<times> int, string) base_chart" where
  "chart0 = baseMixin js0 1 ''key: value'' (\<lambda>a. None)"

definition dim0 :: "jsval dimension" where
  "dim0 = \<lparr>has_filter_method = True, applied = None\<rparr>"

definition chart_with :: "jsval list \<Rightarrow> (jsval, jsval \<times> int, string) base_chart" where
  "chart_with fs = chart0\<lparr>filters := fs\<rparr>"

text \<open>Two custom filter handlers: one moves every numeric filter up by ten before it reaches
  the dimension, the other always keeps the filter \<open>0\<close> in place.\<close>

fun add_ten :: "jsval \<Rightarrow> jsval" where
  "add_ten (JNum n) = JNum (n + 10)"
| "add_ten v = v"

definition offset_handler :: "jsval filter_handler" where
  "offset_handler dim fs =
     (dimension_filterFunction (filterFunction_body js0 (map add_ten fs)) dim,
      Some (map add_ten fs))"


definition offset_chart :: "(jsval, jsval \<times> int, string) base_chart" where
  "offset_chart = dimension_set dim0 (filterHandler_set offset_handler chart0)"

section \<open>The ordering utility\<close>

text \<open>
  \<open>_computeOrderedGroups\<close> copies its argument and sorts the copy in place, so arrays live in
  a store: the list of all arrays made so far, an array's address being its position. The
  two variables of the mixin that the utility reads and writes, \<open>_ordering\<close> and the cached
  \<open>_orderSort\<close>, form a small state of their own.
\<close>

type_synonym 'r store = "'r list list"

type_synonym 'r sorter = "nat \<Rightarrow> nat \<Rightarrow> nat \<Rightarrow> 'r store \<Rightarrow> 'r store \<times> nat"

record ('r, 'k) ordering_state =
  ordering :: "'r \<Rightarrow> 'k"
  orderSort :: "'r sorter option"

definition array_at :: "'r store \<Rightarrow> nat \<Rightarrow> 'r list option" where
  "array_at h a = (if a < length h then Some (h ! a) else None)"

text \<open>\<open>data.slice(0)\<close>: a new array with the same elements; reading a missing array fails.\<close>

definition slice0 :: "nat \<Rightarrow> 'r store \<Rightarrow> ('r store \<times> nat) option" where
  "slice0 a h =
     (case array_at h a of
        None \<Rightarrow> None
      | Some xs \<Rightarrow> Some (h @ [xs], length h))"

text \<open>
  Modelled from the spec: \<open>crossfilter.quicksort.by\<close> belongs to the crossfilter library and is
  not among the sources. The specification's contract for the ordering utility is to return
  the array "sorted ascending by extracted key using a stable comparison". So the sorter built
  for a key function rearranges, in place, the elements at positions \<open>lo \<le> i < hi\<close> of the given
  array into ascending order of their keys, elements with equal keys staying in their order,
  and returns that same array.
\<close>

definition quicksort_by :: "('r \<Rightarrow> 'k::linorder) \<Rightarrow> 'r sorter" where
  "quicksort_by f a lo hi h =
     (case array_at h a of
        None \<Rightarrow> (h, a)
      | Some xs \<Rightarrow>
          (h[a := take lo xs @ sort_key f (take (hi - lo) (drop lo xs)) @ drop hi xs], a))"

definition ordering_set ::
  "('r \<Rightarrow> 'k::linorder) \<Rightarrow> ('r, 'k) ordering_state \<Rightarrow> ('r, 'k) ordering_state" where
  "ordering_set o' st = st\<lparr>ordering := o', orderSort := Some (quicksort_by o')\<rparr>"

definition computeOrderedGroups ::
  "nat \<Rightarrow> ('r, 'k::linorder) ordering_state \<Rightarrow> 'r store
   \<Rightarrow> (('r, 'k) ordering_state \<times> 'r store \<times> nat) option" where
  "computeOrderedGroups data st h =
     (case slice0 data h of
        None \<Rightarrow> None
      | Some (h1, dataCopy) \<Rightarrow>
          (case array_at h1 dataCopy of
             None \<Rightarrow> None
           | Some xs \<Rightarrow>
               if length xs \<le> 1 then Some (st, h1, dataCopy)
               else
                 (let st1 = (if orderSort st = None
                             then st\<lparr>orderSort := Some (quicksort_by (ordering st))\<rparr>
                             else st)
                  in case orderSort st1 of
                       None \<Rightarrow> None
                     | Some srt \<Rightarrow>
                         (case srt dataCopy 0 (length xs) h1 of
                            (h2, res) \<Rightarrow> Some (st1, h2, res)))))"

text \<open>The state of a fresh mixin, for a given default key function.\<close>

definition ordering_init :: "('r \<Rightarrow> 'k) \<Rightarrow> ('r, 'k) ordering_state" where
  "ordering_init pluck_key = \<lparr>ordering = pluck_key, orderSort = None\<rparr>"

text \<open>The cached sorter, when there is one, was built from the current key function. This
  holds of a fresh state and is kept by the setter and by the utility itself.\<close>

definition sorter_current :: "('r, 'k::linorder) ordering_state \<Rightarrow> bool" where
  "sorter_current st =
     (orderSort st = None \<or> orderSort st = Some (quicksort_by (ordering st)))"

section \<open>The stack mixin\<close>

text \<open>
  A point of a layer and a layer, as \<open>_prepareValues\<close> builds them. A point's \<open>y\<close> is a number
  or \<open>null\<close>; its \<open>y0\<close> and \<open>y1\<close> are unset until the layout has run. A layer's \<open>hidden\<close> flag is
  unset, true or false; its name is unset until given or prepared; its point lists are empty
  until first prepared. Numbers are taken to be integers.
\<close>

record ('v, 'r) point =
  p_x :: 'v
  p_y :: "int option"
  p_data :: 'r
  p_layer :: string
  p_hidden :: "bool option"
  p_y0 :: "int option"
  p_y1 :: "int option"

record ('v, 'r) layer =
  l_group :: "'r list"
  l_name :: "string option"
  l_accessor :: "('r \<Rightarrow> nat \<Rightarrow> int) option"
  l_hidden :: "bool option"
  l_values :: "('v, 'r) point list"
  l_domainValues :: "('v, 'r) point list"

text \<open>A row of the wide table handed to the layout: the key \<open>x\<close>, and under each layer name
  that layer's \<open>y\<close> at the row. The layout answers with one series per key, each a list of
  \<open>(y0, y1)\<close> pairs.\<close>

type_synonym 'v row = "'v \<times> (string \<Rightarrow> int option option)"

type_synonym 'v layout = "string list \<Rightarrow> 'v row list \<Rightarrow> (int \<times> int) list list"

text \<open>The chart of the stack mixin extends the base chart. The x scale (given by its domain),
  \<open>isOrdinal\<close> and \<open>elasticX\<close> are supplied by the coordinate-grid base class, which is not among
  the sources; they are fields here.\<close>

record ('v, 'r, 't) stack_chart = "('v, 'r, 't) base_chart" +
  stackLayout :: "'v layout"
  stack :: "('v, 'r) layer list"
  titles :: "string \<Rightarrow> 't option"
  hidableStacks :: bool
  evadeDomainFilter :: bool
  x_scale :: "'v list option"
  isOrdinal :: bool
  elasticX :: bool

text \<open>An argument that the code inspects with \<open>typeof\<close>: left out (or \<open>undefined\<close>), a string,
  or a function.\<close>

datatype 'f arg = Absent | StrArg string | FunArg 'f

subsection \<open>Preparing a layer\<close>

text \<open>\<open>xs[i]\<close>, which is \<open>undefined\<close> outside the array.\<close>

definition element_at :: "'v js_runtime \<Rightarrow> 'v list \<Rightarrow> int \<Rightarrow> 'v" where
  "element_at js xs i = (if 0 \<le> i \<and> i < int (length xs) then xs ! nat i else undefined_v js)"

definition domainFilter ::
  "'v js_runtime \<Rightarrow> ('v, 'r, 't, 'z) stack_chart_scheme \<Rightarrow> ('v, 'r) point \<Rightarrow> bool" where
  "domainFilter js c =
     (case x_scale c of
        None \<Rightarrow> (\<lambda>p. True)
      | Some xDomain \<Rightarrow>
          if isOrdinal c then (\<lambda>p. True)
          else if elasticX c then (\<lambda>p. True)
          else (\<lambda>p. js_ge js (p_x p) (element_at js xDomain 0)
                  \<and> js_le js (p_x p) (element_at js xDomain (int (length xDomain) - 1))))"

definition layer_name :: "('v, 'r) layer \<Rightarrow> nat \<Rightarrow> string" where
  "layer_name l layerIdx =
     (case l_name l of
        Some n \<Rightarrow> if n \<noteq> [] then n else string_of_nat layerIdx
      | None \<Rightarrow> string_of_nat layerIdx)"

definition allValues ::
  "('v, 'r, 't, 'z) stack_chart_scheme \<Rightarrow> ('v, 'r) layer \<Rightarrow> nat \<Rightarrow> ('v, 'r) point list" where
  "allValues c l layerIdx =
     (let valAccessor = (case l_accessor l of Some a \<Rightarrow> a | None \<Rightarrow> valueAccessor c)
      in map (\<lambda>(i, d).
               \<lparr>p_x = keyAccessor c d i,
                p_y = (if l_hidden l = Some True then None else Some (valAccessor d i)),
                p_data = d,
                p_layer = layer_name l layerIdx,
                p_hidden = l_hidden l,
                p_y0 = None, p_y1 = None\<rparr>)
             (enumerate 0 (l_group l)))"

definition prepareValues ::
  "'v js_runtime \<Rightarrow> ('v, 'r, 't, 'z) stack_chart_scheme \<Rightarrow> ('v, 'r) layer \<Rightarrow> nat
   \<Rightarrow> ('v, 'r) layer" where
  "prepareValues js c l layerIdx =
     (let domainValues = filter (domainFilter js c) (allValues c l layerIdx)
      in l\<lparr>l_name := Some (layer_name l layerIdx),
           l_domainValues := domainValues,
           l_values := (if evadeDomainFilter c then allValues c l layerIdx else domainValues)\<rparr>)"

subsection \<open>The data callback\<close>

definition visibility :: "('v, 'r) layer \<Rightarrow> bool" where
  "visibility l = (l_hidden l \<noteq> Some True)"

text \<open>\<open>layers.forEach((l, i) => this._prepareValues(l, i))\<close>.\<close>

fun prepare_each ::
  "'v js_runtime \<Rightarrow> ('v, 'r, 't, 'z) stack_chart_scheme \<Rightarrow> nat \<Rightarrow> ('v, 'r) layer list
   \<Rightarrow> ('v, 'r) layer list" where
  "prepare_each js c i [] = []"
| "prepare_each js c i (l # ls) = prepareValues js c l i # prepare_each js c (Suc i) ls"

text \<open>The visible layers are objects of the stack itself: what is done to them shows in the
  stack, at the places of its visible layers.\<close>

fun put_back :: "('v, 'r) layer list \<Rightarrow> ('v, 'r) layer list \<Rightarrow> ('v, 'r) layer list" where
  "put_back [] ls = []"
| "put_back (s # ss) ls =
     (if visibility s
      then (case ls of [] \<Rightarrow> s # put_back ss [] | l # ls' \<Rightarrow> l # put_back ss ls')
      else s # put_back ss ls)"

text \<open>The property name a layer's column gets in a row.\<close>

definition name_key :: "('v, 'r) layer \<Rightarrow> string" where
  "name_key l = (case l_name l of Some n \<Rightarrow> n | None \<Rightarrow> ''undefined'')"

text \<open>One row of the wide table: \<open>col[layer.name] = layer.values[i].y\<close> for every layer.
  Reading \<open>.y\<close> of a missing point is a type error. The row's \<open>x\<close> is kept beside the columns.\<close>

fun fill_col ::
  "('v, 'r) layer list \<Rightarrow> nat \<Rightarrow> (string \<Rightarrow> int option option)
   \<Rightarrow> (string \<Rightarrow> int option option) option" where
  "fill_col [] i col = Some col"
| "fill_col (l # ls) i col =
     (if i < length (l_values l)
      then fill_col ls i (col(name_key l \<mapsto> p_y (l_values l ! i)))
      else None)"

fun build_rows ::
  "('v, 'r) layer list \<Rightarrow> (nat \<times> ('v, 'r) point) list \<Rightarrow> 'v row list option" where
  "build_rows layers [] = Some []"
| "build_rows layers ((i, v) # rest) =
     (case fill_col layers i Map.empty of
        None \<Rightarrow> None
      | Some col \<Rightarrow>
          (case build_rows layers rest of
             None \<Rightarrow> None
           | Some rows \<Rightarrow> Some ((p_x v, col) # rows)))"

text \<open>Writing a series back onto a layer's points, by index; the flag is false when a point
  was missing.\<close>

fun write_series ::
  "(int \<times> int) list \<Rightarrow> ('v, 'r) point list \<Rightarrow> ('v, 'r) point list \<times> bool" where
  "write_series [] ps = (ps, True)"
| "write_series (ys # rest) [] = ([], False)"
| "write_series (ys # rest) (p # ps) =
     (case write_series rest ps of
        (ps', ok) \<Rightarrow> (p\<lparr>p_y0 := Some (fst ys), p_y1 := Some (snd ys)\<rparr> # ps', ok))"

text \<open>Writing all series back, series \<open>i\<close> onto layer \<open>i\<close>. The points of \<open>domainValues\<close> are
  the very objects of \<open>values\<close> that passed the domain filter, so they show the same \<open>y0\<close> and
  \<open>y1\<close>. A non-empty series without a layer is a type error.\<close>

fun write_back ::
  "(('v, 'r) point \<Rightarrow> bool) \<Rightarrow> (int \<times> int) list list \<Rightarrow> ('v, 'r) layer list
   \<Rightarrow> ('v, 'r) layer list \<times> bool" where
  "write_back df [] ls = (ls, True)"
| "write_back df (s # ss) [] = (if s = [] then write_back df ss [] else ([], False))"
| "write_back df (s # ss) (l # ls) =
     (case write_series s (l_values l) of
        (vs, ok) \<Rightarrow>
          (let l' = l\<lparr>l_values := vs, l_domainValues := filter df vs\<rparr>
           in if ok
              then (case write_back df ss ls of (ls', ok') \<Rightarrow> (l' # ls', ok'))
              else (l' # ls, False)))"

text \<open>The callback installed with \<open>this.data(...)\<close>: the stacked layers, with the chart as the
  computation leaves it.\<close>

definition data_stacked ::
  "'v js_runtime \<Rightarrow> ('v, 'r, 't, 'z) stack_chart_scheme
   \<Rightarrow> (error \<times> ('v, 'r, 't, 'z) stack_chart_scheme)
     + (('v, 'r, 't, 'z) stack_chart_scheme \<times> ('v, 'r) layer list)" where
  "data_stacked js c =
     (let layers = filter visibility (stack c) in
      if length layers = 0 then Inr (c, [])
      else
        (let layers1 = prepare_each js c 0 layers;
             c1 = c\<lparr>stack := put_back (stack c) layers1\<rparr>
         in case build_rows layers1 (enumerate 0 (l_values (hd layers1))) of
              None \<Rightarrow> Inl (TypeError, c1)
            | Some v4data \<Rightarrow>
                (let keys = map name_key layers1;
                     v4result = stackLayout c1 keys v4data
                 in case write_back (domainFilter js c1) v4result layers1 of
                      (layers2, ok) \<Rightarrow>
                        (let c2 = c1\<lparr>stack := put_back (stack c1) layers2\<rparr>
                         in if ok then Inr (c2, layers2) else Inl (TypeError, c2)))))"

subsection \<open>Stack, group and title\<close>

text \<open>\<open>stack(group, name, accessor)\<close>; the third argument is \<open>None\<close> when the call passes at most
  two.\<close>

definition stack_push ::
  "'r list \<Rightarrow> ('r \<Rightarrow> nat \<Rightarrow> int) arg \<Rightarrow> ('r \<Rightarrow> nat \<Rightarrow> int) arg option
   \<Rightarrow> ('v, 'r, 't, 'z) stack_chart_scheme \<Rightarrow> ('v, 'r, 't, 'z) stack_chart_scheme" where
  "stack_push g name third c =
     (let accessor = (case third of None \<Rightarrow> name | Some a \<Rightarrow> a);
          l = \<lparr>l_group = g,
               l_name = (case name of StrArg s \<Rightarrow> Some s | _ \<Rightarrow> None),
               l_accessor = (case accessor of FunArg f \<Rightarrow> Some f | _ \<Rightarrow> None),
               l_hidden = None, l_values = [], l_domainValues = []\<rparr>
      in c\<lparr>stack := stack c @ [l]\<rparr>)"

text \<open>\<open>group(g, n, f)\<close> with at least one argument; \<open>f\<close> is \<open>None\<close> when it is missing or falsy.
  \<open>_groupName\<close> takes \<open>n\<close>, which counts as a name only when it is a string.\<close>

definition group_stacked ::
  "'r list \<Rightarrow> ('r \<Rightarrow> nat \<Rightarrow> int) arg \<Rightarrow> ('r \<Rightarrow> nat \<Rightarrow> int) option
   \<Rightarrow> ('v, 'r, 't, 'z) stack_chart_scheme \<Rightarrow> ('v, 'r, 't, 'z) stack_chart_scheme" where
  "group_stacked g n f c =
     (let c1 = c\<lparr>stack := [], titles := Map.empty\<rparr>;
          c2 = stack_push g n None c1;
          c3 = (case f of Some f' \<Rightarrow> valueAccessor_set f' c2 | None \<Rightarrow> c2)
      in group_base g (case n of StrArg s \<Rightarrow> Some s | _ \<Rightarrow> None) c3)"



subsection \<open>The default layout and a fresh stack chart\<close>

text \<open>
  Modelled from the spec: \<open>d3.stack\<close> belongs to the d3 library and is not among the sources.
  The specification describes the default layout as "baseline stacking producing, for each
  key and each layer in list order, a pair \<open>(y0, y1)\<close> such that successive layers' baselines
  accumulate - positive values stack upward from the previous top, negative values stack
  downward from the previous bottom". So the layout walks the keys in order and keeps, for
  every row, the bottom and the top reached so far, both starting at \<open>0\<close>; a value that is
  \<open>null\<close> counts as \<open>0\<close>, and a value of \<open>0\<close> sits at the top reached.
\<close>

definition cell_value :: "'v row \<Rightarrow> string \<Rightarrow> int" where
  "cell_value r k = (case snd r k of Some (Some n) \<Rightarrow> n | _ \<Rightarrow> 0)"

definition place :: "int \<Rightarrow> int \<times> int \<Rightarrow> int \<times> int" where
  "place v reach = (if v < 0 then (fst reach + v, fst reach) else (snd reach, snd reach + v))"

definition extend_reach :: "int \<Rightarrow> int \<times> int \<Rightarrow> int \<times> int" where
  "extend_reach v reach = (if v < 0 then (fst reach + v, snd reach) else (fst reach, snd reach + v))"

fun stack_series :: "string list \<Rightarrow> 'v row list \<Rightarrow> (int \<times> int) list \<Rightarrow> (int \<times> int) list list" where
  "stack_series [] rows reach = []"
| "stack_series (k # ks) rows reach =
     map2 (\<lambda>r. place (cell_value r k)) rows reach
     # stack_series ks rows (map2 (\<lambda>r. extend_reach (cell_value r k)) rows reach)"

definition d3_stack :: "'v layout" where
  "d3_stack keys rows = stack_series keys rows (map (\<lambda>r. (0, 0)) rows)"

definition stackMixin ::
  "'v js_runtime \<Rightarrow> nat \<Rightarrow> 't \<Rightarrow> (string \<Rightarrow> bool option) \<Rightarrow> ('v, 'v \<times> int, 't) stack_chart" where
  "stackMixin js uid title0 members =
     base_chart.extend (baseMixin js uid title0 members)
       (stack_chart.fields d3_stack [] Map.empty False False None False False)"

subsection \<open>Stack charts over the concrete runtime\<close>

definition stack0 :: "(jsval, jsval \<times> int, string) stack_chart" where
  "stack0 = stackMixin js0 2 ''key: value'' (\<lambda>a. None)"

text \<open>The two layers of the stacking example, stacked with \<open>group(A, 'A')\<close> and
  \<open>stack(B, 'B')\<close>.\<close>

definition layerA :: "(jsval \<times> int) list" where
  "layerA = [(JNum 1, 3), (JNum 2, 5)]"

definition layerB :: "(jsval \<times> int) list" where
  "layerB = [(JNum 1, 2), (JNum 2, 1)]"

definition chartAB :: "(jsval, jsval \<times> int, string) stack_chart" where
  "chartAB = stack_push layerB (StrArg ''B'') None (group_stacked layerA (StrArg ''A'') None stack0)"

text \<open>What a list of layers shows: per layer its name and, per point, \<open>x\<close>, \<open>y\<close>, \<open>y0\<close>, \<open>y1\<close>.\<close>

definition shown ::
  "('v, 'r) layer list \<Rightarrow> (string option \<times> ('v \<times> int option \<times> int option \<times> int option) list) list" where
  "shown ls = map (\<lambda>l. (l_name l, map (\<lambda>p. (p_x p, p_y p, p_y0 p, p_y1 p)) (l_values l))) ls"

text \<open>The outcome of the data callback, shown.\<close>

definition data_shown ::
  "'v js_runtime \<Rightarrow> ('v, 'r, 't, 'z) stack_chart_scheme
   \<Rightarrow> error + (string option \<times> ('v \<times> int option \<times> int option \<times> int option) list) list" where
  "data_shown js c =
     (case data_stacked js c of
        Inl (e, c') \<Rightarrow> Inl e
      | Inr (c', ls) \<Rightarrow> Inr (shown ls))"

text \<open>A chart whose x scale has the domain \<open>[2, 4]\<close>, with one layer over the keys \<open>1\<close> to \<open>5\<close>;
  and a chart that already has two stacked layers and a per-stack title.\<close>

definition layerC :: "(jsval, jsval \<times> int) layer" where
  "layerC = \<lparr>l_group = [(JNum 1, 10), (JNum 2, 20), (JNum 3, 30), (JNum 4, 40), (JNum 5, 50)],
             l_name = Some ''C'', l_accessor = None, l_hidden = None,
             l_values = [], l_domainValues = []\<rparr>"

definition chart_clipped :: "(jsval, jsval \<times> int, string) stack_chart" where
  "chart_clipped = stack0\<lparr>stack := [layerC], x_scale := Some [JNum 2, JNum 4]\<rparr>"

definition chart_titled :: "(jsval, jsval \<times> int, string) stack_chart" where
  "chart_titled = chartAB\<lparr>titles := [''B'' \<mapsto> ''title of B'']\<rparr>"



section \<open>Properties of the filter set\<close>

text \<open>The definitions to unfold when the model is run on a concrete chart.\<close>

lemmas eval_defs = chart_with_def chart0_def baseMixin_def js0_def symmetric_equal_def js_le_def
  js_ge_def less_than_def hasFilter_def filter_chart_def addFilter_def removeFilter_def
  resetFilters_def applyFilters_def invokeFilteredListener_def default_filterHandler_def
  turnOnControls_def turnOffControls_def Let_def dimension_filter_null_def
  dimension_filterFunction_def

lemma symmetric_equal_commute: "symmetric_equal js a b = symmetric_equal js b a"
  by (auto simp: symmetric_equal_def js_le_def js_ge_def)

lemma hasFilter_Some:
  "hasFilter js c (Some v) = (\<exists>f\<in>set (filters c). symmetric_equal js f v)"
  by (auto simp: hasFilter_def list_ex_iff symmetric_equal_def js_le_def js_ge_def)


lemma filters_applyFilters_default:
  "filterHandler c = default_filterHandler js \<Longrightarrow> filters (applyFilters c) = filters c"
  by (simp add: applyFilters_def default_filterHandler_def Let_def split: option.splits)

lemma filterHandler_applyFilters: "filterHandler (applyFilters c) = filterHandler c"
  by (simp add: applyFilters_def split: option.splits prod.splits)

lemma filters_invokeFilteredListener: "filters (invokeFilteredListener js f c) = filters c"
  by (simp add: invokeFilteredListener_def)

lemma filterHandler_invokeFilteredListener:
  "filterHandler (invokeFilteredListener js f c) = filterHandler c"
  by (simp add: invokeFilteredListener_def)

lemma filterHandler_bulk_toggle: "filterHandler (bulk_toggle js ds c) = filterHandler c"
  by (induction ds arbitrary: c) auto

lemma filterHandler_filter_chart: "filterHandler (filter_chart js v c) = filterHandler c"
  by (simp add: filter_chart_def Let_def turnOnControls_def turnOffControls_def
      removeFilter_def addFilter_def resetFilters_def filterHandler_applyFilters
      filterHandler_invokeFilteredListener filterHandler_bulk_toggle split: option.splits)

text \<open>What one call of \<open>filter(v)\<close> leaves in the filter list, for a value that takes the
  toggle branch, on a chart whose handler hands the list back.\<close>

lemma filters_filter_chart_scalar:
  assumes "filterHandler c = default_filterHandler js"
    and "v \<noteq> null_v js"
    and "isFiltered_of js v \<noteq> None \<or> array_of_arrays js v = None"
  shows "filters (filter_chart js v c) =
           (if hasFilter js c (Some v) then splice_first_match js v (filters c)
            else filters c @ [v])"
proof -
  have branch: "(if isFiltered_of js v = None then array_of_arrays js v else None) = None"
    using assms(3) by auto
  have rem: "filters (removeFilter js v c) = splice_first_match js v (filters c)"
    using assms(1)
    by (simp add: removeFilter_def filters_invokeFilteredListener filters_applyFilters_default)
  have add: "filters (addFilter js v c) = filters c @ [v]"
    using assms(1)
    by (simp add: addFilter_def filters_invokeFilteredListener filters_applyFilters_default)
  show ?thesis
    unfolding filter_chart_def branch
    using assms(2) rem add
    by (simp add: Let_def turnOnControls_def turnOffControls_def)
qed

lemma splice_first_match_absent:
  "\<forall>f\<in>set fs. \<not> symmetric_equal js f v \<Longrightarrow> symmetric_equal js v v \<Longrightarrow>
   splice_first_match js v (fs @ [v]) = fs"
  by (induction fs) (auto simp: symmetric_equal_def)

lemma splice_first_match_remove1:
  "\<forall>f\<in>set fs. symmetric_equal js f v \<longrightarrow> f = v \<Longrightarrow> symmetric_equal js v v \<Longrightarrow>
   splice_first_match js v fs = remove1 v fs"
proof (induction fs)
  case Nil
  then show ?case by simp
next
  case (Cons f fs)
  then show ?case
    by (cases "f = v") (auto simp: symmetric_equal_def)
qed

lemma not_in_remove1_once: "count_list fs v \<le> 1 \<Longrightarrow> v \<notin> set (remove1 v fs)"
proof (induction fs)
  case Nil
  then show ?case by simp
next
  case (Cons f fs)
  show ?case
  proof (cases "f = v")
    case True
    with Cons.prems have "count_list fs v = 0" by simp
    then have "v \<notin> set fs" by (simp add: count_list_0_iff)
    with True show ?thesis by simp
  next
    case False
    with Cons show ?thesis by simp
  qed
qed

text \<open>The chart holding the filters \<open>1\<close> and \<open>2\<close> is what two calls of \<open>filter\<close> make of a fresh
  chart, up to the effects recorded on the way.\<close>

lemma chart_with_reached:
  "filters (filter_chart js0 (JNum 2) (filter_chart js0 (JNum 1) chart0))
     = filters (chart_with [JNum 1, JNum 2])
   \<and> filter_chart js0 (JNum 2) (filter_chart js0 (JNum 1) chart0)
       = chart_with [JNum 1, JNum 2]\<lparr>effects := [Filtered (JNum 1), Filtered (JNum 2)]\<rparr>"
  by (simp add: eval_defs)

text \<open>
  Claim C2, as amended. On a chart with the default filter handler, let \<open>v\<close> be a value that
  takes the toggle branch of \<open>filter\<close> (not \<open>null\<close>, not a bulk array) and is symmetrically equal
  to itself, and let the stored list hold \<open>v\<close> at most once and nothing else that is
  symmetrically equal to \<open>v\<close>. Then after the first \<open>filter(v)\<close> the answer of \<open>hasFilter(v)\<close> is
  the opposite of what it was, and after the second call the list holds the same filters as
  before the first: it is the very same list when \<open>v\<close> was absent, and when \<open>v\<close> was present
  \<open>v\<close> has moved to the end.
\<close>

theorem filter_twice:
  assumes handler: "filterHandler c = default_filterHandler js"
    and not_null: "v \<noteq> null_v js"
    and scalar: "isFiltered_of js v \<noteq> None \<or> array_of_arrays js v = None"
    and self_equal: "symmetric_equal js v v"
    and only_v: "\<forall>f\<in>set (filters c). symmetric_equal js f v \<longrightarrow> f = v"
    and once: "count_list (filters c) v \<le> 1"
  shows "hasFilter js (filter_chart js v c) (Some v) = (\<not> hasFilter js c (Some v))
       \<and> filters (filter_chart js v (filter_chart js v c)) =
           (if hasFilter js c (Some v) then remove1 v (filters c) @ [v] else filters c)
       \<and> mset (filters (filter_chart js v (filter_chart js v c))) = mset (filters c)"
proof -
  let ?c1 = "filter_chart js v c"
  have h1: "filterHandler ?c1 = default_filterHandler js"
    using handler by (simp add: filterHandler_filter_chart)
  have f1: "filters ?c1 =
      (if hasFilter js c (Some v) then splice_first_match js v (filters c) else filters c @ [v])"
    by (rule filters_filter_chart_scalar [OF handler not_null scalar])
  have f2: "filters (filter_chart js v ?c1) =
      (if hasFilter js ?c1 (Some v) then splice_first_match js v (filters ?c1)
       else filters ?c1 @ [v])"
    by (rule filters_filter_chart_scalar [OF h1 not_null scalar])
  show ?thesis
  proof (cases "hasFilter js c (Some v)")
    case True
    then have v_in: "v \<in> set (filters c)"
      using only_v by (auto simp: hasFilter_Some)
    have s1: "filters ?c1 = remove1 v (filters c)"
      using f1 True only_v self_equal by (simp add: splice_first_match_remove1)
    have gone: "v \<notin> set (remove1 v (filters c))"
      by (rule not_in_remove1_once [OF once])
    have no1: "\<not> hasFilter js ?c1 (Some v)"
    proof
      assume "hasFilter js ?c1 (Some v)"
      then obtain f where f: "f \<in> set (remove1 v (filters c))" "symmetric_equal js f v"
        using s1 by (auto simp: hasFilter_Some)
      from f(1) have "f \<in> set (filters c)"
        using set_remove1_subset by fastforce
      with f only_v gone show False by auto
    qed
    have s2: "filters (filter_chart js v ?c1) = remove1 v (filters c) @ [v]"
      using f2 no1 s1 by simp
    have "mset (remove1 v (filters c) @ [v]) = mset (filters c)"
      using v_in by simp
    with True no1 s2 show ?thesis by simp
  next
    case False
    then have absent: "\<forall>f\<in>set (filters c). \<not> symmetric_equal js f v"
      by (simp add: hasFilter_Some)
    have s1: "filters ?c1 = filters c @ [v]"
      using f1 False by simp
    have yes1: "hasFilter js ?c1 (Some v)"
      using s1 self_equal by (auto simp: hasFilter_Some)
    have s2: "filters (filter_chart js v ?c1) = filters c"
      using f2 yes1 s1 splice_first_match_absent [OF absent self_equal] by simp
    with False yes1 show ?thesis by simp
  qed
qed

theorem filter_twice_witness:
  "filters (chart_with [JNum 1, JNum 2]) = [JNum 1, JNum 2]
   \<and> hasFilter js0 (chart_with [JNum 1, JNum 2]) (Some (JNum 1))
   \<and> \<not> hasFilter js0 (filter_chart js0 (JNum 1) (chart_with [JNum 1, JNum 2])) (Some (JNum 1))
   \<and> filters (filter_chart js0 (JNum 1) (filter_chart js0 (JNum 1) (chart_with [JNum 1, JNum 2])))
       = [JNum 2, JNum 1]"
proof -
  let ?c = "chart_with [JNum 1, JNum 2]"
  have fs: "filters ?c = [JNum 1, JNum 2]"
    by (simp add: chart_with_def)
  have h: "filterHandler ?c = default_filterHandler js0"
    by (simp add: chart_with_def chart0_def baseMixin_def)
  have n: "JNum 1 \<noteq> null_v js0"
    by (simp add: js0_def)
  have s: "isFiltered_of js0 (JNum 1) \<noteq> None \<or> array_of_arrays js0 (JNum 1) = None"
    by (simp add: js0_def)
  have e: "symmetric_equal js0 (JNum 1) (JNum 1)"
    by (simp add: js0_def symmetric_equal_def js_le_def js_ge_def less_than_def)
  have o: "\<forall>f\<in>set (filters ?c). symmetric_equal js0 f (JNum 1) \<longrightarrow> f = JNum 1"
    by (simp add: fs js0_def symmetric_equal_def js_le_def js_ge_def less_than_def)
  have k: "count_list (filters ?c) (JNum 1) \<le> 1"
    by (simp add: fs)
  have p: "hasFilter js0 ?c (Some (JNum 1))"
    by (simp add: hasFilter_def fs js0_def js_le_def js_ge_def less_than_def)
  show ?thesis
    using filter_twice [OF h n s e o k] p fs by simp
qed

text \<open>\<open>NaN\<close> is not symmetrically equal to itself: toggled twice on a fresh chart it is stored
  twice, and \<open>hasFilter\<close> never reports it.\<close>

theorem filter_twice_counterexample:
  "filters chart0 = []
   \<and> \<not> hasFilter js0 chart0 (Some JNaN)
   \<and> \<not> hasFilter js0 (filter_chart js0 JNaN chart0) (Some JNaN)
   \<and> filters (filter_chart js0 JNaN (filter_chart js0 JNaN chart0)) = [JNaN, JNaN]"
  by (simp add: eval_defs)

text \<open>Other ways the double toggle fails to restore the list: a value stored twice, a stored
  object that merely compares equal to \<open>v\<close>, and a handler that rewrites the list.\<close>

lemma filter_twice_duplicate:
  "hasFilter js0 (filter_chart js0 (JNum 1) (chart_with [JNum 1, JNum 1])) (Some (JNum 1))
   \<and> filters (filter_chart js0 (JNum 1) (filter_chart js0 (JNum 1) (chart_with [JNum 1, JNum 1]))) = []"
  by (simp add: eval_defs)

lemma filter_twice_other_object:
  "hasFilter js0 (chart_with [JBetween 1 5]) (Some (JBetween 2 9))
   \<and> filters (filter_chart js0 (JBetween 2 9) (filter_chart js0 (JBetween 2 9) (chart_with [JBetween 1 5])))
      = [JBetween 2 9]"
  by (simp add: eval_defs)

lemma filter_twice_offset_handler:
  "filters (filter_chart js0 (JNum 5) (filter_chart js0 (JNum 5)
      (dimension_set dim0 (filterHandler_set offset_handler chart0)))) = [JNum 25, JNum 15]"
  by (simp add: eval_defs dimension_set_def filterHandler_set_def dim0_def offset_handler_def)

text \<open>
  Claim C4, as amended. \<open>hasFilter(v)\<close> is true exactly when some stored filter is symmetrically
  equal to \<open>v\<close>. Whether a stored filter exposes \<open>isFiltered\<close>, and what it answers,
  makes no difference to the result.
\<close>

theorem hasFilter_symmetric_only:
  "hasFilter js c (Some v) = (\<exists>f\<in>set (filters c). symmetric_equal js f v)
   \<and> hasFilter (js\<lparr>isFiltered_of := p\<rparr>) c (Some v) = hasFilter js c (Some v)"
  by (simp add: hasFilter_Some symmetric_equal_def js_le_def js_ge_def)

theorem hasFilter_symmetric_only_witness:
  "hasFilter js0 (chart_with [JNum 1, JNum 2]) (Some (JNum 2))
   \<and> JNum 2 \<in> set (filters (chart_with [JNum 1, JNum 2]))
   \<and> symmetric_equal js0 (JNum 2) (JNum 2)"
  using hasFilter_symmetric_only [of js0 "chart_with [JNum 1, JNum 2]" "JNum 2"]
  by (simp add: chart_with_def js0_def symmetric_equal_def js_le_def js_ge_def less_than_def)

text \<open>A stored filter object whose \<open>isFiltered\<close> accepts \<open>5\<close> does not make \<open>hasFilter(5)\<close>
  true.\<close>

theorem hasFilter_isFiltered_counterexample:
  "filters (filter_chart js0 (JBetween 1 10) chart0) = [JBetween 1 10]
   \<and> isFiltered_accepts js0 (JBetween 1 10) (JNum 5)
   \<and> hasFilter_spec js0 (filters (filter_chart js0 (JBetween 1 10) chart0)) (JNum 5)
   \<and> \<not> hasFilter js0 (filter_chart js0 (JBetween 1 10) chart0) (Some (JNum 5))"
  by (simp add: eval_defs hasFilter_spec_def isFiltered_accepts_def between_def)







lemma filters_applyFilters_returned:
  assumes "dimension c = Some dim" and "has_filter_method dim"
    and "snd (filterHandler c dim (filters c)) = Some fs'"
  shows "filters (applyFilters c) = fs'"
  using assms by (auto simp: applyFilters_def split: prod.splits)

text \<open>
  Claim C8. On a chart bound to a dimension that has a \<open>filter\<close> function, with a filter handler
  that answers with the list \<open>g fs\<close> when handed \<open>fs\<close>: after \<open>applyFilters\<close>, and so after adding,
  removing or resetting, the stored list is what the handler returned for the list it was
  handed, not that list; after any \<open>filter(v)\<close> the stored list is one the handler returned;
  and \<open>hasFilter\<close> answers from the returned list.
\<close>

theorem filters_follow_handler:
  assumes bound: "dimension c = Some dim"
    and has_method: "has_filter_method dim"
    and handler_returns: "\<forall>fs. snd (filterHandler c dim fs) = Some (g fs)"
  shows "filters (applyFilters c) = g (filters c)
       \<and> filters (addFilter js v c) = g (filters c @ [v])
       \<and> filters (removeFilter js v c) = g (splice_first_match js v (filters c))
       \<and> filters (resetFilters js c) = g []
       \<and> filters (filter_chart js v c) \<in> range g
       \<and> hasFilter js (addFilter js v c) (Some w)
           = (\<exists>f\<in>set (g (filters c @ [v])). symmetric_equal js f w)"
proof -
  have ap: "filters (applyFilters (c\<lparr>filters := fs\<rparr>)) = g fs" for fs
    using bound has_method handler_returns
    by (intro filters_applyFilters_returned [where dim = dim]) simp_all
  have a: "filters (applyFilters c) = g (filters c)"
    using ap [of "filters c"] by simp
  have b: "filters (addFilter js v c) = g (filters c @ [v])"
    by (simp add: addFilter_def filters_invokeFilteredListener ap)
  have r: "filters (removeFilter js v c) = g (splice_first_match js v (filters c))"
    by (simp add: removeFilter_def filters_invokeFilteredListener ap)
  have z: "filters (resetFilters js c) = g []"
    by (simp add: resetFilters_def filters_invokeFilteredListener ap)
  have bulk_same: "dimension (bulk_toggle js ds c') = dimension c'
      \<and> filterHandler (bulk_toggle js ds c') = filterHandler c'" for ds and c' :: "('a, 'b, 'c, 'd) base_chart_scheme"
    by (induction ds arbitrary: c') auto
  have k: "filters (applyFilters (bulk_toggle js ds c)) = g (filters (bulk_toggle js ds c))" for ds
    using bound has_method handler_returns bulk_same [of ds c]
    by (intro filters_applyFilters_returned [where dim = dim]) simp_all
  have f: "filters (filter_chart js v c) \<in> range g"
    using b r z k
    by (simp add: filter_chart_def Let_def turnOnControls_def turnOffControls_def
        filters_invokeFilteredListener split: option.splits)
  have h: "hasFilter js (addFilter js v c) (Some w)
           = (\<exists>f\<in>set (g (filters c @ [v])). symmetric_equal js f w)"
    by (simp add: hasFilter_Some b)
  from a b r z f h show ?thesis by blast
qed

theorem filters_follow_handler_witness:
  "dimension offset_chart = Some dim0 \<and> has_filter_method dim0
   \<and> (\<forall>fs. snd (filterHandler offset_chart dim0 fs) = Some (map add_ten fs))
   \<and> filters (addFilter js0 (JNum 5) offset_chart) = [JNum 15]
   \<and> hasFilter js0 (addFilter js0 (JNum 5) offset_chart) (Some (JNum 15))
   \<and> \<not> hasFilter js0 (addFilter js0 (JNum 5) offset_chart) (Some (JNum 5))"
proof -
  have b: "dimension offset_chart = Some dim0"
    by (simp add: offset_chart_def dimension_set_def filterHandler_set_def)
  have m: "has_filter_method dim0"
    by (simp add: dim0_def)
  have r: "\<forall>fs. snd (filterHandler offset_chart dim0 fs) = Some (map add_ten fs)"
    by (simp add: offset_chart_def dimension_set_def filterHandler_set_def offset_handler_def)
  have e: "filters offset_chart = []"
    by (simp add: offset_chart_def dimension_set_def filterHandler_set_def chart0_def baseMixin_def)
  have s: "symmetric_equal js0 (JNum 15) (JNum 15) \<and> \<not> symmetric_equal js0 (JNum 15) (JNum 5)"
    by (simp add: js0_def symmetric_equal_def js_le_def js_ge_def less_than_def)
  show ?thesis
    using filters_follow_handler [OF b m r, of js0 "JNum 5" "JNum 15"]
      filters_follow_handler [OF b m r, of js0 "JNum 5" "JNum 5"] b m r e s
    by simp
qed

section \<open>Properties of render and redraw\<close>









section \<open>Properties of the ordering utility\<close>

lemma sorter_current_init: "sorter_current (ordering_init k)"
  by (simp add: sorter_current_def ordering_init_def)

lemma sorter_current_ordering_set: "sorter_current (ordering_set o' st)"
  by (simp add: sorter_current_def ordering_set_def)

lemma sort_key_short: "length xs \<le> 1 \<Longrightarrow> sort_key f xs = xs"
  by (cases xs) (auto simp: Suc_le_eq)

lemma quicksort_by_whole:
  "array_at h a = Some xs \<Longrightarrow>
   quicksort_by f a 0 (length xs) h = (h[a := sort_key f xs], a)"
  by (simp add: quicksort_by_def)

text \<open>The utility, run: the store gains one array, the sorted copy, and nothing else changes.\<close>

lemma computeOrderedGroups_eq:
  assumes "array_at h data = Some xs" and "sorter_current st"
  shows "computeOrderedGroups data st h =
     Some (if length xs \<le> 1 then st else st\<lparr>orderSort := Some (quicksort_by (ordering st))\<rparr>,
           h @ [sort_key (ordering st) xs],
           length h)"
proof (cases "length xs \<le> 1")
  case True
  with assms(1) show ?thesis
    by (simp add: computeOrderedGroups_def slice0_def array_at_def sort_key_short)
next
  case False
  have copy: "array_at (h @ [xs]) (length h) = Some xs"
    by (simp add: array_at_def)
  have q: "quicksort_by (ordering st) (length h) 0 (length xs) (h @ [xs]) =
      (h @ [sort_key (ordering st) xs], length h)"
    using quicksort_by_whole [OF copy] by simp
  show ?thesis
  proof (cases "orderSort st")
    case None
    with False assms(1) q copy show ?thesis
      by (simp add: computeOrderedGroups_def slice0_def)
  next
    case (Some srt)
    with assms(2) have srt: "srt = quicksort_by (ordering st)"
      by (simp add: sorter_current_def)
    have "st\<lparr>orderSort := Some (quicksort_by (ordering st))\<rparr> = st"
      using Some srt by simp
    with False assms(1) q copy Some srt show ?thesis
      by (simp add: computeOrderedGroups_def slice0_def)
  qed
qed

text \<open>
  Claim C5. Given the address of an array and a state whose cached sorter, if any, was built
  from the configured key function, the ordering utility returns the address of a new array
  and leaves the array it was given, and every other array, as they were. The new array is
  a rearrangement of the given one, ascending by key, in which elements of equal key keep
  their order; for an array of length 0 or 1 it has the same elements in the same order.
\<close>

theorem computeOrderedGroups_sorts:
  assumes arr: "array_at h data = Some xs"
    and cur: "sorter_current st"
  shows "\<exists>st' ys.
           computeOrderedGroups data st h = Some (st', h @ [ys], length h)
         \<and> length h \<noteq> data
         \<and> array_at (h @ [ys]) data = Some xs
         \<and> (\<forall>a. a \<noteq> length h \<longrightarrow> array_at (h @ [ys]) a = array_at h a)
         \<and> array_at (h @ [ys]) (length h) = Some ys
         \<and> sorted (map (ordering st) ys)
         \<and> mset ys = mset xs
         \<and> (\<forall>k. filter (\<lambda>r. ordering st r = k) ys = filter (\<lambda>r. ordering st r = k) xs)
         \<and> (length xs \<le> 1 \<longrightarrow> ys = xs)
         \<and> ordering st' = ordering st
         \<and> sorter_current st'"
proof -
  let ?ys = "sort_key (ordering st) xs"
  let ?st' = "if length xs \<le> 1 then st else st\<lparr>orderSort := Some (quicksort_by (ordering st))\<rparr>"
  have run: "computeOrderedGroups data st h = Some (?st', h @ [?ys], length h)"
    by (rule computeOrderedGroups_eq [OF arr cur])
  from arr have inside: "data < length h"
    by (simp add: array_at_def split: if_splits)
  then have kept: "array_at (h @ [?ys]) data = Some xs"
    using arr by (simp add: array_at_def nth_append)
  have others: "\<forall>a. a \<noteq> length h \<longrightarrow> array_at (h @ [?ys]) a = array_at h a"
    by (auto simp: array_at_def nth_append)
  have new: "array_at (h @ [?ys]) (length h) = Some ?ys"
    by (simp add: array_at_def)
  have cur': "sorter_current ?st'"
    using cur by (simp add: sorter_current_def)
  have ord: "ordering ?st' = ordering st"
    by simp
  have stable: "\<forall>k. filter (\<lambda>r. ordering st r = k) ?ys = filter (\<lambda>r. ordering st r = k) xs"
    by (simp add: sort_key_stable)
  have short: "length xs \<le> 1 \<longrightarrow> ?ys = xs"
    by (simp add: sort_key_short)
  from inside have ne: "length h \<noteq> data" by simp
  from run ne kept others new cur' ord stable short
  show ?thesis
    by (intro exI [of _ ?st'] exI [of _ ?ys] conjI) simp_all
qed

theorem computeOrderedGroups_sorts_witness:
  "array_at [[(3::int, ''a''), (1, ''b''), (2, ''c''), (1, ''d'')], [(7, ''z'')]] 0
     = Some [(3, ''a''), (1, ''b''), (2, ''c''), (1, ''d'')]
   \<and> array_at [[(3::int, ''a''), (1, ''b''), (2, ''c''), (1, ''d'')], [(7, ''z'')]] 1
     = Some [(7, ''z'')]
   \<and> sorter_current (ordering_init (fst :: int \<times> string \<Rightarrow> int))
   \<and> map_option (\<lambda>(st', h', res). (h', res))
        (computeOrderedGroups 0 (ordering_init fst)
           [[(3::int, ''a''), (1, ''b''), (2, ''c''), (1, ''d'')], [(7, ''z'')]])
      = Some ([[(3, ''a''), (1, ''b''), (2, ''c''), (1, ''d'')], [(7, ''z'')],
               [(1, ''b''), (1, ''d''), (2, ''c''), (3, ''a'')]], 2)
   \<and> map_option (\<lambda>(st', h', res). (h', res))
        (computeOrderedGroups 1 (ordering_init fst)
           [[(3::int, ''a''), (1, ''b''), (2, ''c''), (1, ''d'')], [(7, ''z'')]])
      = Some ([[(3, ''a''), (1, ''b''), (2, ''c''), (1, ''d'')], [(7, ''z'')], [(7, ''z'')]], 2)"
proof -
  let ?xs = "[(3::int, ''a''), (1, ''b''), (2, ''c''), (1, ''d'')]"
  let ?one = "[(7::int, ''z'')]"
  let ?h = "[?xs, ?one]"
  have a: "array_at ?h 0 = Some ?xs" and a1: "array_at ?h 1 = Some ?one"
    by (simp_all add: array_at_def)
  have c: "sorter_current (ordering_init (fst :: int \<times> string \<Rightarrow> int))"
    by (simp add: sorter_current_def ordering_init_def)
  have o: "ordering (ordering_init (fst :: int \<times> string \<Rightarrow> int)) = fst"
    by (simp add: ordering_init_def)
  from computeOrderedGroups_sorts [OF a c]
  obtain st' ys where r:
    "computeOrderedGroups 0 (ordering_init fst) ?h = Some (st', ?h @ [ys], length ?h)"
    "sorted (map fst ys)" "mset ys = mset ?xs"
    "\<forall>k. filter (\<lambda>r. fst r = k) ys = filter (\<lambda>r. fst r = k) ?xs"
    using o by auto
  from computeOrderedGroups_sorts [OF a1 c]
  obtain st1 ys1 where r1:
    "computeOrderedGroups 1 (ordering_init fst) ?h = Some (st1, ?h @ [ys1], length ?h)"
    "ys1 = ?one"
    by auto
  have "computeOrderedGroups 0 (ordering_init fst) ?h =
      Some (ordering_init fst\<lparr>orderSort := Some (quicksort_by fst)\<rparr>,
            ?h @ [sort_key fst ?xs], length ?h)"
    using computeOrderedGroups_eq [OF a c] o by simp
  with r(1) have "ys = sort_key fst ?xs"
    by simp
  then have "ys = [(1, ''b''), (1, ''d''), (2, ''c''), (3, ''a'')]"
    by simp
  with r(1) r1 a a1 c show ?thesis
    by simp
qed

section \<open>Properties of the stack mixin\<close>

text \<open>The default layout, on values that are not negative: the series of a key starts, at each
  row, at the sum of the row's values under the keys before it, and ends that sum plus its
  own value.\<close>

lemma stack_series_length: "length (stack_series ks rows reach) = length ks"
  by (induction ks arbitrary: reach) simp_all

lemma stack_series_accumulates:
  assumes "length reach = length rows"
    and "\<forall>r\<in>set rows. \<forall>k\<in>set ks. 0 \<le> cell_value r k"
    and "i < length ks" and "j < length rows"
  shows "stack_series ks rows reach ! i ! j =
           (snd (reach ! j) + (\<Sum>k\<leftarrow>take i ks. cell_value (rows ! j) k),
            snd (reach ! j) + (\<Sum>k\<leftarrow>take (Suc i) ks. cell_value (rows ! j) k))"
  using assms
proof (induction ks arbitrary: reach i)
  case Nil
  then show ?case by simp
next
  case (Cons k ks)
  have nonneg: "0 \<le> cell_value (rows ! j) k"
    using Cons.prems(2,4) by simp
  show ?case
  proof (cases i)
    case 0
    with Cons.prems(1,4) nonneg show ?thesis
      by (simp add: place_def)
  next
    case (Suc i')
    let ?reach' = "map2 (\<lambda>r. extend_reach (cell_value r k)) rows reach"
    have len: "length ?reach' = length rows"
      using Cons.prems(1) by simp
    have top: "snd (?reach' ! j) = snd (reach ! j) + cell_value (rows ! j) k"
      using Cons.prems(1,4) nonneg by (simp add: extend_reach_def)
    have "stack_series ks rows ?reach' ! i' ! j =
           (snd (?reach' ! j) + (\<Sum>k\<leftarrow>take i' ks. cell_value (rows ! j) k),
            snd (?reach' ! j) + (\<Sum>k\<leftarrow>take (Suc i') ks. cell_value (rows ! j) k))"
      using Cons.prems Suc by (intro Cons.IH [OF len]) simp_all
    with Suc top show ?thesis
      by simp
  qed
qed

lemma d3_stack_accumulates:
  assumes "\<forall>r\<in>set rows. \<forall>k\<in>set ks. 0 \<le> cell_value r k"
    and "i < length ks" and "j < length rows"
  shows "d3_stack ks rows ! i ! j =
           ((\<Sum>k\<leftarrow>take i ks. cell_value (rows ! j) k),
            (\<Sum>k\<leftarrow>take (Suc i) ks. cell_value (rows ! j) k))"
  using stack_series_accumulates [OF _ assms, of "map (\<lambda>r. (0, 0)) rows"] assms(3)
  by (simp add: d3_stack_def)

lemma stack_chartAB:
  "stack chartAB =
     [\<lparr>l_group = layerA, l_name = Some ''A'', l_accessor = None, l_hidden = None,
       l_values = [], l_domainValues = []\<rparr>,
      \<lparr>l_group = layerB, l_name = Some ''B'', l_accessor = None, l_hidden = None,
       l_values = [], l_domainValues = []\<rparr>]"
  by (simp add: chartAB_def stack_push_def group_stacked_def group_base_def Let_def)

lemma chartAB_settings:
  "x_scale chartAB = None \<and> \<not> evadeDomainFilter chartAB \<and> stackLayout chartAB = d3_stack
   \<and> keyAccessor chartAB = (\<lambda>d i. fst d) \<and> valueAccessor chartAB = (\<lambda>d i. snd d)"
  by (simp add: chartAB_def stack_push_def group_stacked_def group_base_def Let_def stack0_def
      stackMixin_def baseMixin_def base_chart.extend_def stack_chart.fields_def
      base_chart.defs stack_chart.defs)

text \<open>
  Claim C1. For layer A with points \<open>(1, 3), (2, 5)\<close> and layer B with points \<open>(1, 2), (2, 1)\<close>,
  both visible, the data computation gives at key 1 layer A \<open>y0 = 0, y1 = 3\<close> and layer B
  \<open>y0 = 3, y1 = 5\<close>, and at key 2 layer A \<open>y0 = 0, y1 = 5\<close> and layer B \<open>y0 = 5, y1 = 6\<close>.
\<close>

theorem stacking_example:
  "map (\<lambda>l. (l_name l, l_group l, l_hidden l)) (stack chartAB) =
     [(Some ''A'', [(JNum 1, 3), (JNum 2, 5)], None),
      (Some ''B'', [(JNum 1, 2), (JNum 2, 1)], None)]
   \<and> data_shown js0 chartAB =
     Inr [(Some ''A'', [(JNum 1, Some 3, Some 0, Some 3), (JNum 2, Some 5, Some 0, Some 5)]),
          (Some ''B'', [(JNum 1, Some 2, Some 3, Some 5), (JNum 2, Some 1, Some 5, Some 6)])]"
  by (simp add: data_shown_def data_stacked_def stack_chartAB chartAB_settings visibility_def
      prepareValues_def allValues_def layer_name_def domainFilter_def layerA_def layerB_def
      enumerate_eq_zip name_key_def d3_stack_def cell_value_def place_def extend_reach_def
      shown_def Let_def)

lemma element_at_first: "bounds \<noteq> [] \<Longrightarrow> element_at js bounds 0 = hd bounds"
  by (cases bounds) (simp_all add: element_at_def)

lemma element_at_last: "bounds \<noteq> [] \<Longrightarrow> element_at js bounds (int (length bounds) - 1) = last bounds"
  by (simp add: element_at_def last_conv_nth nat_diff_distrib')

text \<open>
  Claim C6. A prepared layer's \<open>domainValues\<close> are its points that pass the domain filter, and
  its \<open>values\<close> are all its points when the evade-domain-filter flag is set and its
  \<open>domainValues\<close> otherwise. The filter passes every point when no x scale is bound, when the
  scale is ordinal or when it is elastic; otherwise, for a scale with a non-empty domain, it
  passes exactly the points whose \<open>x\<close> is \<open>>=\<close> the first and \<open><=\<close> the last element of the domain.
  (With an empty domain both bounds are \<open>undefined\<close>.)
\<close>

theorem prepareValues_domain_filter:
  "l_domainValues (prepareValues js c l i) = filter (domainFilter js c) (allValues c l i)
   \<and> l_values (prepareValues js c l i) =
       (if evadeDomainFilter c then allValues c l i
        else l_domainValues (prepareValues js c l i))
   \<and> (x_scale c = None \<or> isOrdinal c \<or> elasticX c
        \<longrightarrow> domainFilter js c p \<and> l_domainValues (prepareValues js c l i) = allValues c l i)
   \<and> (x_scale c = Some bounds \<and> \<not> isOrdinal c \<and> \<not> elasticX c \<and> bounds \<noteq> []
        \<longrightarrow> domainFilter js c p = (js_ge js (p_x p) (hd bounds) \<and> js_le js (p_x p) (last bounds))
          \<and> l_domainValues (prepareValues js c l i) =
              filter (\<lambda>q. js_ge js (p_x q) (hd bounds) \<and> js_le js (p_x q) (last bounds))
                (allValues c l i))
   \<and> (x_scale c = Some [] \<and> \<not> isOrdinal c \<and> \<not> elasticX c
        \<longrightarrow> domainFilter js c p =
              (js_ge js (p_x p) (undefined_v js) \<and> js_le js (p_x p) (undefined_v js)))"
proof -
  have a: "l_domainValues (prepareValues js c l i) = filter (domainFilter js c) (allValues c l i)"
    by (simp add: prepareValues_def Let_def)
  have b: "l_values (prepareValues js c l i) =
       (if evadeDomainFilter c then allValues c l i
        else l_domainValues (prepareValues js c l i))"
    by (simp add: prepareValues_def Let_def)
  have pass: "domainFilter js c = (\<lambda>q. True)" if "x_scale c = None \<or> isOrdinal c \<or> elasticX c"
    using that by (auto simp: domainFilter_def split: option.splits)
  have clip: "domainFilter js c =
      (\<lambda>q. js_ge js (p_x q) (hd bounds) \<and> js_le js (p_x q) (last bounds))"
    if "x_scale c = Some bounds \<and> \<not> isOrdinal c \<and> \<not> elasticX c \<and> bounds \<noteq> []"
    using that by (simp add: domainFilter_def element_at_first element_at_last)
  have none: "domainFilter js c =
      (\<lambda>q. js_ge js (p_x q) (undefined_v js) \<and> js_le js (p_x q) (undefined_v js))"
    if "x_scale c = Some [] \<and> \<not> isOrdinal c \<and> \<not> elasticX c"
    using that by (simp add: domainFilter_def element_at_def)
  from a b show ?thesis
    using pass clip none by simp
qed

lemma allValues_layerC:
  "map (\<lambda>q. (p_x q, p_y q)) (allValues chart_clipped layerC 0) =
     [(JNum 1, Some 10), (JNum 2, Some 20), (JNum 3, Some 30), (JNum 4, Some 40), (JNum 5, Some 50)]"
  by (simp add: allValues_def layerC_def chart_clipped_def stack0_def stackMixin_def baseMixin_def
      base_chart.defs stack_chart.defs enumerate_eq_zip Let_def)

theorem prepareValues_domain_filter_witness:
  "x_scale chart_clipped = Some [JNum 2, JNum 4]
   \<and> \<not> isOrdinal chart_clipped \<and> \<not> elasticX chart_clipped
   \<and> map p_x (allValues chart_clipped layerC 0) = [JNum 1, JNum 2, JNum 3, JNum 4, JNum 5]
   \<and> map p_x (l_domainValues (prepareValues js0 chart_clipped layerC 0))
       = [JNum 2, JNum 3, JNum 4]
   \<and> map p_x (l_values (prepareValues js0 chart_clipped layerC 0)) = [JNum 2, JNum 3, JNum 4]
   \<and> map p_x (l_values (prepareValues js0 (chart_clipped\<lparr>evadeDomainFilter := True\<rparr>) layerC 0))
       = [JNum 1, JNum 2, JNum 3, JNum 4, JNum 5]
   \<and> map p_x (l_domainValues (prepareValues js0 (chart_clipped\<lparr>elasticX := True\<rparr>) layerC 0))
       = [JNum 1, JNum 2, JNum 3, JNum 4, JNum 5]
   \<and> map p_x (l_domainValues (prepareValues js0 (chart_clipped\<lparr>isOrdinal := True\<rparr>) layerC 0))
       = [JNum 1, JNum 2, JNum 3, JNum 4, JNum 5]
   \<and> map p_x (l_domainValues (prepareValues js0 (chart_clipped\<lparr>x_scale := None\<rparr>) layerC 0))
       = [JNum 1, JNum 2, JNum 3, JNum 4, JNum 5]
   \<and> \<not> domainFilter js0 (chart_clipped\<lparr>x_scale := Some []\<rparr>)
         (hd (allValues chart_clipped layerC 0))"
proof -
  have s: "x_scale chart_clipped = Some [JNum 2, JNum 4]
      \<and> \<not> isOrdinal chart_clipped \<and> \<not> elasticX chart_clipped \<and> \<not> evadeDomainFilter chart_clipped"
    by (simp add: chart_clipped_def stack0_def stackMixin_def base_chart.defs stack_chart.defs)
  have xs: "map p_x (allValues chart_clipped layerC 0) = [JNum 1, JNum 2, JNum 3, JNum 4, JNum 5]"
    using allValues_layerC [THEN arg_cong, of "map fst"] by (simp add: comp_def)
  have same_e: "allValues (chart_clipped\<lparr>evadeDomainFilter := True\<rparr>) layerC 0
      = allValues chart_clipped layerC 0"
    by (simp add: allValues_def layerC_def)
  have same_x: "allValues (chart_clipped\<lparr>elasticX := True\<rparr>) layerC 0
      = allValues chart_clipped layerC 0"
    by (simp add: allValues_def layerC_def)
  have same_o: "allValues (chart_clipped\<lparr>isOrdinal := True\<rparr>) layerC 0
      = allValues chart_clipped layerC 0"
    by (simp add: allValues_def layerC_def)
  have same_n: "allValues (chart_clipped\<lparr>x_scale := None\<rparr>) layerC 0
      = allValues chart_clipped layerC 0"
    by (simp add: allValues_def layerC_def)
  have cmp: "map p_x (filter (\<lambda>q. js_ge js0 (p_x q) (JNum 2) \<and> js_le js0 (p_x q) (JNum 4))
                 (allValues chart_clipped layerC 0)) = [JNum 2, JNum 3, JNum 4]"
    using xs
    by (simp add: filter_map [symmetric, unfolded comp_def] allValues_def layerC_def
        enumerate_eq_zip Let_def js_ge_def js_le_def js0_def less_than_def)
  have und: "\<not> js_ge js0 v (undefined_v js0)" for v
    by (simp add: js_ge_def js0_def less_than_def split: option.splits)
  note t = prepareValues_domain_filter
      [where js = js0 and l = layerC and i = 0 and bounds = "[JNum 2, JNum 4]"
        and p = "hd (allValues chart_clipped layerC 0)"]
  have d1: "l_domainValues (prepareValues js0 chart_clipped layerC 0) =
      filter (\<lambda>q. js_ge js0 (p_x q) (JNum 2) \<and> js_le js0 (p_x q) (JNum 4))
        (allValues chart_clipped layerC 0)"
    using t [where c = chart_clipped] s by auto
  have v1: "l_values (prepareValues js0 chart_clipped layerC 0) =
      l_domainValues (prepareValues js0 chart_clipped layerC 0)"
    using t [where c = chart_clipped] s by simp
  have v2: "l_values (prepareValues js0 (chart_clipped\<lparr>evadeDomainFilter := True\<rparr>) layerC 0) =
      allValues chart_clipped layerC 0"
    using t [where c = "chart_clipped\<lparr>evadeDomainFilter := True\<rparr>"] same_e s
    by auto
  have d3: "l_domainValues (prepareValues js0 (chart_clipped\<lparr>elasticX := True\<rparr>) layerC 0) =
      allValues chart_clipped layerC 0"
    using t [where c = "chart_clipped\<lparr>elasticX := True\<rparr>"] same_x s
    by auto
  have d4: "l_domainValues (prepareValues js0 (chart_clipped\<lparr>isOrdinal := True\<rparr>) layerC 0) =
      allValues chart_clipped layerC 0"
    using t [where c = "chart_clipped\<lparr>isOrdinal := True\<rparr>"] same_o s
    by auto
  have d5: "l_domainValues (prepareValues js0 (chart_clipped\<lparr>x_scale := None\<rparr>) layerC 0) =
      allValues chart_clipped layerC 0"
    using t [where c = "chart_clipped\<lparr>x_scale := None\<rparr>"] same_n s
    by auto
  have d6: "\<not> domainFilter js0 (chart_clipped\<lparr>x_scale := Some []\<rparr>)
         (hd (allValues chart_clipped layerC 0))"
    using t [where c = "chart_clipped\<lparr>x_scale := Some []\<rparr>"] s und
    by simp
  show ?thesis
    by (simp add: s xs v1 d1 cmp v2 d3 d4 d5 d6)
qed

text \<open>
  Claim C9. After \<open>group(g, n, f)\<close> the stack holds exactly one layer, which wraps \<open>g\<close> and is
  named \<open>n\<close> when \<open>n\<close> is a string; there are no per-stack titles; and the chart-wide value
  accessor is \<open>f\<close> when \<open>f\<close> was given and the previous one otherwise.
\<close>

theorem group_resets_stack:
  "stack (group_stacked g n f c) =
     [\<lparr>l_group = g,
       l_name = (case n of StrArg s \<Rightarrow> Some s | _ \<Rightarrow> None),
       l_accessor = (case n of FunArg a \<Rightarrow> Some a | _ \<Rightarrow> None),
       l_hidden = None, l_values = [], l_domainValues = []\<rparr>]
   \<and> titles (group_stacked g n f c) = Map.empty
   \<and> valueAccessor (group_stacked g n f c) = (case f of Some f' \<Rightarrow> f' | None \<Rightarrow> valueAccessor c)
   \<and> group (group_stacked g n f c) = Some g
   \<and> groupName (group_stacked g n f c) = (case n of StrArg s \<Rightarrow> Some s | _ \<Rightarrow> None)"
  by (simp add: group_stacked_def stack_push_def group_base_def valueAccessor_set_def Let_def
      split: option.splits)

theorem group_resets_stack_witness:
  "length (stack chart_titled) = 2 \<and> titles chart_titled ''B'' = Some ''title of B''
   \<and> map (\<lambda>l. (l_group l, l_name l)) (stack (group_stacked layerB (StrArg ''only'') None chart_titled))
       = [(layerB, Some ''only'')]
   \<and> titles (group_stacked layerB (StrArg ''only'') None chart_titled) ''B'' = None
   \<and> valueAccessor (group_stacked layerB Absent (Some (\<lambda>d i. 7)) chart_titled) = (\<lambda>d i. 7)"
  using group_resets_stack [of layerB "StrArg ''only''" None chart_titled]
    group_resets_stack [of layerB Absent "Some (\<lambda>d i. 7)" chart_titled]
  by (simp add: chart_titled_def stack_chartAB)



end
